theory Spec2Isabelle
  imports Complex_Main "HOL-Library.FSet" "HOL-Library.Char_ord" "HOL-Library.List_Lexorder"
begin

section \<open>Values shared by the three modules\<close>

text \<open>
  Exceptions of the Python run time that the modelled code can raise. \<open>SystemExit\<close>
  carries the status given to \<^verbatim>\<open>exit\<close>.
\<close>

datatype py_error = ZeroDivisionError | NameError | AssertionError | SystemExit int

text \<open>
  A Python \<^verbatim>\<open>float\<close> as far as the program looks at it: the program compares floats
  with \<^verbatim>\<open>==\<close> and \<^verbatim>\<open>!=\<close> and divides one by another. A finite double is the rational
  number it denotes (both zeros denote 0, and they compare equal), and there are the
  two infinities and NaN.
\<close>

datatype pyfloat = Fin rat | PInf | NInf | NaN

definition py_eq :: "pyfloat \<Rightarrow> pyfloat \<Rightarrow> bool" where
  "py_eq x y = (x \<noteq> NaN \<and> y \<noteq> NaN \<and> x = y)"

definition py_ne :: "pyfloat \<Rightarrow> pyfloat \<Rightarrow> bool" where
  "py_ne x y = (\<not> py_eq x y)"

text \<open>
  \<^verbatim>\<open>x / y\<close> on floats raises \<^verbatim>\<open>ZeroDivisionError\<close> exactly when the divisor
  compares equal to zero; the quotient's value is only printed and is not modelled.
\<close>

definition float_div_raises :: "pyfloat \<Rightarrow> pyfloat \<Rightarrow> bool" where
  "float_div_raises x y = (y = Fin 0)"

text \<open>
  The lines the program prints, one constructor per \<^verbatim>\<open>print\<close> call of the source,
  holding the values handed to the format string. Colour codes and number formatting
  are left to the terminal.
\<close>

datatype out_line =
    Header string
  | NotHistograms string string
  | DifferentDimensions int int
  | DifferentNcells int int
  | BinLine nat pyfloat pyfloat
  | DifferentSameIntegral string pyfloat
  | DifferentIntegral string pyfloat pyfloat
  | Equal string
  | BinsOK
  | MissingFrom1 nat int rat
  | MissingFrom2 nat int rat
  | CommonIn12 nat int rat
  | Plot string
  | Blank
  | WarnNothingInCommon
  | SameContent nat nat rat
  | DifferentContent nat nat rat
  | SameFiles
  | TotalKeys nat
  | NoKeysMatching string
  | OfWhichMatching string nat
  | AllKeysExcluded string
  | OfWhichNotMatching string nat
  | DiffStdout string
  | ErrorInDiff

text \<open>
  A computation that prints and then returns a value or raises: the printed lines
  (kept also when it raises) and the outcome.
\<close>

type_synonym 'a printed = "out_line list \<times> (py_error + 'a)"

definition ret :: "'a \<Rightarrow> 'a printed" where
  "ret x = ([], Inr x)"

definition say :: "out_line list \<Rightarrow> unit printed" where
  "say ls = (ls, Inr ())"

definition raise :: "py_error \<Rightarrow> 'a printed" where
  "raise e = ([], Inl e)"

definition andthen :: "'a printed \<Rightarrow> ('a \<Rightarrow> 'b printed) \<Rightarrow> 'b printed" where
  "andthen m f =
     (case m of
        (out, Inl e) \<Rightarrow> (out, Inl e)
      | (out, Inr x) \<Rightarrow> (case f x of (out', r) \<Rightarrow> (out @ out', r)))"

section \<open>compare\_rootfiles.py: the content comparator\<close>

text \<open>\<^verbatim>\<open>class ExitStatus(Enum)\<close> and its \<^verbatim>\<open>.value\<close>.\<close>

datatype ExitStatus =
    IDENTICAL | CLARG_ERROR | INTERNAL_ERROR | EITHER_MISS | FIRST_MISS | SECOND_MISS
  | DIFFERENCE_COMMON

fun status_value :: "ExitStatus \<Rightarrow> int" where
  "status_value IDENTICAL = 0"
| "status_value CLARG_ERROR = 2"
| "status_value INTERNAL_ERROR = 3"
| "status_value EITHER_MISS = 10"
| "status_value FIRST_MISS = 11"
| "status_value SECOND_MISS = 12"
| "status_value DIFFERENCE_COMMON = 13"

text \<open>
  What \<^verbatim>\<open>compare_plot\<close> reads of an object retrieved from a ROOT file: its name and
  class name, whether its class inherits from TH1, and for a histogram its dimension,
  its number of cells, the content of each cell and the value of
  \<^verbatim>\<open>Integral(0, -1)\<close>. ROOT computes these; the program only reads them.
\<close>

record tobject =
  GetName :: string
  ClassName :: string
  InheritsFrom_TH1 :: bool
  GetDimension :: int
  GetNcells :: int
  GetBinContent :: "nat \<Rightarrow> pyfloat"
  Integral_all :: pyfloat

text \<open>
  The nested \<^verbatim>\<open>print_header\<close>: the state is the flag \<^verbatim>\<open>printed_header\<close> and the
  lines printed so far.
\<close>

fun print_header :: "string \<Rightarrow> bool \<times> out_line list \<Rightarrow> bool \<times> out_line list" where
  "print_header name (printed_header, out) =
     (if \<not> printed_header then (True, out @ [Header name]) else (printed_header, out))"

text \<open>
  The loop \<^verbatim>\<open>for b in range(0, ncells1)\<close> over the cells still to visit. The state is
  \<^verbatim>\<open>ok_content\<close>, \<^verbatim>\<open>printed_header\<close> and the output. On a differing cell the loop
  goes on when every bin is printed and breaks otherwise.
\<close>

fun scan_bins ::
  "bool \<Rightarrow> string \<Rightarrow> tobject \<Rightarrow> tobject \<Rightarrow> nat list \<Rightarrow> bool \<times> bool \<times> out_line list
     \<Rightarrow> bool \<times> bool \<times> out_line list" where
  "scan_bins print_every_bin name h1 h2 [] st = st"
| "scan_bins print_every_bin name h1 h2 (b # bs) (ok_content, printed_header, out) =
     (let c1 = GetBinContent h1 b; c2 = GetBinContent h2 b in
      if py_ne c1 c2 then
        (if print_every_bin then
           (case print_header name (printed_header, out) of
              (ph, out') \<Rightarrow> scan_bins print_every_bin name h1 h2 bs (False, ph, out' @ [BinLine b c1 c2]))
         else (False, printed_header, out))
      else scan_bins print_every_bin name h1 h2 bs (ok_content, printed_header, out))"

text \<open>
  The summary printed after the loop when \<^verbatim>\<open>(print_wrong_plot or print_good_plot) and
  not print_every_bin\<close>. The percentage divides the second integral by the first.
\<close>

definition integral_report ::
  "string \<Rightarrow> tobject \<Rightarrow> tobject \<Rightarrow> bool \<Rightarrow> bool \<Rightarrow> unit printed" where
  "integral_report name h1 h2 ok_content print_good_plot =
     (if \<not> ok_content then
        (let integral1 = Integral_all h1; integral2 = Integral_all h2 in
         if py_eq integral1 integral2 then say [DifferentSameIntegral name integral1]
         else if float_div_raises integral2 integral1 then raise ZeroDivisionError
         else say [DifferentIntegral name integral1 integral2])
      else if print_good_plot then say [Equal name]
      else ret ())"

text \<open>
  \<^verbatim>\<open>compare_plot(h1, h2, verbosity)\<close>. The three bare \<^verbatim>\<open>return\<close>s give \<open>None\<close>;
  otherwise the result is \<^verbatim>\<open>ok_content\<close>.
\<close>

definition compare_plot :: "tobject \<Rightarrow> tobject \<Rightarrow> int \<Rightarrow> bool option printed" where
  "compare_plot h1 h2 verbosity =
     (let name = GetName h1 in
      if list_ex (\<lambda>h. \<not> InheritsFrom_TH1 h) [h1, h2] then
        andthen (if verbosity \<ge> 1
                 then say [Header name, NotHistograms (ClassName h1) (ClassName h2)]
                 else ret ())
          (\<lambda>_. ret None)
      else if \<not> (GetDimension h1 = GetDimension h2) then
        andthen (say [Header name, DifferentDimensions (GetDimension h1) (GetDimension h2)])
          (\<lambda>_. ret None)
      else
        (let ncells1 = GetNcells h1; ncells2 = GetNcells h2 in
         if \<not> (ncells1 = ncells2) then
           andthen (say [Header name, DifferentNcells ncells1 ncells2]) (\<lambda>_. ret None)
         else
           (let print_wrong_plot = (verbosity \<ge> 2);
                print_good_plot = (verbosity \<ge> 4);
                print_every_bin = (verbosity \<ge> 3);
                print_ok = (verbosity \<ge> 5)
            in case scan_bins print_every_bin name h1 h2 [0 ..< nat ncells1] (True, False, []) of
                 (ok_content, printed_header, out) \<Rightarrow>
                   andthen (say out) (\<lambda>_.
                   andthen (if (print_wrong_plot \<or> print_good_plot) \<and> \<not> print_every_bin
                            then integral_report name h1 h2 ok_content print_good_plot
                            else ret ()) (\<lambda>_.
                   andthen (if ok_content \<and> print_ok
                            then say (snd (print_header name (printed_header, [])) @ [BinsOK])
                            else ret ()) (\<lambda>_.
                   ret (Some ok_content)))))))"

section \<open>compare\_rootfiles.py: the set comparator and the report formatter\<close>

text \<open>
  \<^verbatim>\<open>100*n/total\<close> with integer operands: Python's true division, which raises on a
  zero divisor. The arguments of a \<^verbatim>\<open>print\<close> are evaluated before anything is
  printed, so a line whose percentage raises is not printed. \<^verbatim>\<open>get_fmt\<close> only builds
  the format string and is part of the formatting left out.
\<close>

definition percent :: "nat \<Rightarrow> int \<Rightarrow> rat printed" where
  "percent n total' =
     (if total' = 0 then raise ZeroDivisionError else ret (of_int (100 * int n) / of_int total'))"

text \<open>
  One of the three blocks of \<^verbatim>\<open>print_missing\<close>: the source writes the block out
  three times, for \<^verbatim>\<open>missing1\<close>, \<^verbatim>\<open>missing2\<close> and \<^verbatim>\<open>common\<close>.
\<close>

definition print_subset ::
  "(nat \<Rightarrow> int \<Rightarrow> rat \<Rightarrow> out_line) \<Rightarrow> string fset \<Rightarrow> int \<Rightarrow> bool \<Rightarrow> unit printed" where
  "print_subset line keys total' print_plots =
     (if fcard keys > 0 then
        andthen (percent (fcard keys) total') (\<lambda>p.
        andthen (say [line (fcard keys) total' p]) (\<lambda>_.
        if print_plots then say (map Plot (sorted_list_of_fset keys) @ [Blank]) else ret ()))
      else ret ())"

definition print_missing ::
  "string fset \<Rightarrow> string fset \<Rightarrow> string fset \<Rightarrow> int \<Rightarrow> int \<Rightarrow> unit printed" where
  "print_missing missing1 missing2 common verbosity total' =
     (let print_every_plot = (verbosity \<ge> 2);
          print_every_plot_common = (verbosity \<ge> 4)
      in andthen (print_subset MissingFrom1 missing1 total' print_every_plot) (\<lambda>_.
         andthen (print_subset MissingFrom2 missing2 total' print_every_plot) (\<lambda>_.
         print_subset CommonIn12 common total' print_every_plot_common)))"

text \<open>\<^verbatim>\<open>print_content_status\<close> on the two counters of the dictionary.\<close>

definition print_content_status :: "nat \<Rightarrow> nat \<Rightarrow> unit printed" where
  "print_content_status ok bad =
     (let tot = ok + bad in
      if tot = 0 then say [WarnNothingInCommon]
      else
        andthen (percent ok (int tot)) (\<lambda>p.
        andthen (say [SameContent ok tot p]) (\<lambda>_.
        if bad = 0 then ret ()
        else andthen (percent bad (int tot)) (\<lambda>q. say [DifferentContent bad tot q]))))"

text \<open>
  \<^verbatim>\<open>diff_set(keys1, keys2, verbosity=...)\<close> as \<^verbatim>\<open>main\<close> calls it: no \<^verbatim>\<open>common\<close> is
  passed, so \<^verbatim>\<open>setdefault\<close> stores \<^verbatim>\<open>missing1 & missing2\<close>. The last branch of the
  source evaluates the status without returning it, so the function returns \<open>None\<close>.
\<close>

definition diff_set_common :: "string fset \<Rightarrow> string fset \<Rightarrow> string fset" where
  "diff_set_common keys1 keys2 =
     (let missing1 = keys2 |-| keys1; missing2 = keys1 |-| keys2 in missing1 |\<inter>| missing2)"

definition diff_set :: "string fset \<Rightarrow> string fset \<Rightarrow> int \<Rightarrow> int option printed" where
  "diff_set keys1 keys2 verbosity =
     (let missing1 = keys2 |-| keys1;
          missing2 = keys1 |-| keys2;
          common = diff_set_common keys1 keys2
      in andthen (print_missing missing1 missing2 common verbosity
                    (int (fcard (keys1 |\<union>| keys2)))) (\<lambda>_.
         if fcard missing2 > 0 then ret (Some (status_value SECOND_MISS))
         else if fcard missing2 > 0 then ret (Some (status_value FIRST_MISS))
         else ret None))"

text \<open>
  \<^verbatim>\<open>diff_full\<close> runs the external program \<^verbatim>\<open>diff\<close> on the two sorted key lists;
  the program is a parameter giving the return code and the standard output.
\<close>

definition diff_full ::
  "(string list \<Rightarrow> string list \<Rightarrow> int \<times> string) \<Rightarrow> string fset \<Rightarrow> string fset \<Rightarrow> int printed" where
  "diff_full diff_prog keys1 keys2 =
     (case diff_prog (sorted_list_of_fset keys1) (sorted_list_of_fset keys2) of
        (returncode, stdout) \<Rightarrow>
          if returncode = 2 then
            andthen (say [ErrorInDiff]) (\<lambda>_. raise (SystemExit (status_value INTERNAL_ERROR)))
          else andthen (say [DiffStdout stdout]) (\<lambda>_. ret returncode))"

section \<open>compare\_rootfiles.py: the orchestrator\<close>

text \<open>
  A compiled regular expression is its pattern and the predicate
  \<^verbatim>\<open>search(k) is not None\<close>. The parsed arguments hold the fields \<^verbatim>\<open>main\<close> reads
  after opening the files.
\<close>

record regex =
  pattern :: string
  search :: "string \<Rightarrow> bool"

record args =
  arg_plot :: "regex option"
  arg_plot_exclude :: "regex option"
  arg_diff :: bool
  arg_set :: bool
  arg_verbosity :: int

text \<open>
  An opened file: the inode and device of its descriptor, and \<^verbatim>\<open>Get(plot)\<close>, which
  gives no object for a name it cannot retrieve.
\<close>

record tfile =
  st_ino :: nat
  st_dev :: nat
  Get :: "string \<Rightarrow> tobject option"

text \<open>
  Lines 264 to 287, the selection of keys. \<open>Inl\<close> is the early return with its
  status; \<open>Inr\<close> is \<^verbatim>\<open>matching_keys\<close> when the comparison goes on.
\<close>

definition select_keys ::
  "args \<Rightarrow> string fset \<Rightarrow> string fset \<Rightarrow> (int + string fset) printed" where
  "select_keys args keys1 keys2 =
     andthen (say [TotalKeys (fcard (keys1 |\<union>| keys2))]) (\<lambda>_.
     andthen
       (case arg_plot args of
          None \<Rightarrow> ret (Inr (keys1 |\<union>| keys2))
        | Some plot \<Rightarrow>
            (let matching_keys = ffilter (search plot) (keys1 |\<union>| keys2) in
             if fcard matching_keys = 0 then
               andthen (say [NoKeysMatching (pattern plot)]) (\<lambda>_.
                 ret (Inl (status_value CLARG_ERROR)))
             else
               andthen (say [OfWhichMatching (pattern plot) (fcard matching_keys)]) (\<lambda>_.
                 ret (Inr matching_keys))))
       (\<lambda>selected.
          case selected of
            Inl status \<Rightarrow> ret (Inl status)
          | Inr matching_keys \<Rightarrow>
              andthen
                (case arg_plot_exclude args of
                   None \<Rightarrow> ret (Inr matching_keys)
                 | Some plot_exclude \<Rightarrow>
                     (let matching_keys' = ffilter (\<lambda>k. \<not> search plot_exclude k) matching_keys in
                      if fcard matching_keys' = 0 then
                        andthen (say [AllKeysExcluded (pattern plot_exclude)]) (\<lambda>_.
                          ret (Inl (status_value CLARG_ERROR)))
                      else
                        andthen (say [OfWhichNotMatching (pattern plot_exclude)
                                        (fcard matching_keys')]) (\<lambda>_.
                          ret (Inr matching_keys'))))
                (\<lambda>selected'.
                   case selected' of
                     Inl status \<Rightarrow> ret (Inl status)
                   | Inr matching_keys' \<Rightarrow> andthen (say [Blank]) (\<lambda>_. ret (Inr matching_keys')))))"

text \<open>Lines 290 and 291: the dictionary \<^verbatim>\<open>missing_keys\<close> with keys 1 and 2, and \<^verbatim>\<open>common_keys\<close>.\<close>

definition missing_keys :: "nat \<Rightarrow> string fset \<Rightarrow> string fset \<Rightarrow> string fset \<Rightarrow> string fset" where
  "missing_keys i matching_keys keys1 keys2 =
     (if i = 1 then matching_keys |-| keys1 else matching_keys |-| keys2)"

definition common_keys :: "string fset \<Rightarrow> string fset \<Rightarrow> string fset \<Rightarrow> string fset" where
  "common_keys matching_keys keys1 keys2 = matching_keys |\<inter>| keys1 |\<inter>| keys2"

text \<open>
  Lines 295 to 302: the loop over the sorted common keys. The state is the pair of
  counters \<^verbatim>\<open>content_status['OK']\<close> and \<^verbatim>\<open>content_status['BAD']\<close>. The assertion
  fails when either object is missing; the \<^verbatim>\<open>if(ok_content)\<close> takes \<open>None\<close> and
  \<open>False\<close> to its else branch.
\<close>

fun compare_common ::
  "tfile \<Rightarrow> tfile \<Rightarrow> int \<Rightarrow> string list \<Rightarrow> nat \<times> nat \<Rightarrow> (nat \<times> nat) printed" where
  "compare_common tf1 tf2 verbosity [] content_status = ret content_status"
| "compare_common tf1 tf2 verbosity (plot # plots) (ok, bad) =
     (case (Get tf1 plot, Get tf2 plot) of
        (Some h1, Some h2) \<Rightarrow>
          andthen (compare_plot h1 h2 verbosity) (\<lambda>ok_content.
            compare_common tf1 tf2 verbosity plots
              (if ok_content = Some True then (ok + 1, bad) else (ok, bad + 1)))
      | _ \<Rightarrow> raise AssertionError)"

text \<open>
  \<^verbatim>\<open>main\<close> from the two opened files on. \<open>keys1\<close> and \<open>keys2\<close> are the sets built
  at lines 242 and 246 from what the key enumeration yields, for the runs where it
  yields path strings.
\<close>

definition main ::
  "args \<Rightarrow> (string list \<Rightarrow> string list \<Rightarrow> int \<times> string) \<Rightarrow> tfile \<Rightarrow> string fset \<Rightarrow> tfile
     \<Rightarrow> string fset \<Rightarrow> int option printed" where
  "main args diff_prog tf1 keys1 tf2 keys2 =
     (if st_ino tf1 = st_ino tf2 \<and> st_dev tf1 = st_dev tf2 then
        andthen (say [SameFiles]) (\<lambda>_. ret (Some (status_value CLARG_ERROR)))
      else if arg_diff args then
        andthen (diff_full diff_prog keys1 keys2) (\<lambda>diff_retcode.
          if diff_retcode = 1 then ret (Some (status_value EITHER_MISS))
          else ret (Some (status_value IDENTICAL)))
      else if arg_set args then diff_set keys1 keys2 (arg_verbosity args)
      else
        andthen (select_keys args keys1 keys2) (\<lambda>selected.
          case selected of
            Inl status \<Rightarrow> ret (Some status)
          | Inr matching_keys \<Rightarrow>
              (let missing1 = missing_keys 1 matching_keys keys1 keys2;
                   missing2 = missing_keys 2 matching_keys keys1 keys2;
                   common = common_keys matching_keys keys1 keys2
               in andthen (compare_common tf1 tf2 (arg_verbosity args)
                             (sorted_list_of_fset common) (0, 0)) (\<lambda>(ok, bad).
                  andthen (print_missing missing1 missing2 common (arg_verbosity args)
                             (int (fcard matching_keys))) (\<lambda>_.
                  andthen (say [Blank]) (\<lambda>_.
                  andthen (print_content_status ok bad) (\<lambda>_.
                  if bad > 0 then ret (Some (status_value DIFFERENCE_COMMON))
                  else if fcard missing2 > 0 then ret (Some (status_value SECOND_MISS))
                  else if fcard missing1 > 0 then ret (Some (status_value FIRST_MISS))
                  else ret (Some (status_value IDENTICAL)))))))))"

text \<open>
  \<^verbatim>\<open>exit(main())\<close>: the status of the process. \<open>None\<close> exits with 0, an integer with
  itself, and an uncaught exception ends the interpreter with 1.
\<close>

fun process_exit :: "int option printed \<Rightarrow> int" where
  "process_exit (out, Inr None) = 0"
| "process_exit (out, Inr (Some n)) = n"
| "process_exit (out, Inl (SystemExit n)) = n"
| "process_exit (out, Inl e) = 1"

section \<open>rootutils.py: the key enumerator\<close>

text \<open>
  A key of a directory: a leaf with its name, or a folder with its name and the keys
  of the directory \<^verbatim>\<open>ReadObj()\<close> gives.
\<close>

datatype tkey = Leaf string | Folder string "tkey list"

text \<open>
  What the generators yield: a path string, or a generator object. Calling the
  generator function \<^verbatim>\<open>get_keys_in_folder(folder, path=newpath)\<close> runs none of its
  body; it makes a generator object holding its two arguments.
\<close>

datatype item = Path string | Generator "tkey list" string

text \<open>
  The module \<^verbatim>\<open>rootutils\<close> imports nothing, so what the global name \<^verbatim>\<open>os\<close> is bound
  to when \<^verbatim>\<open>os.path.join\<close> is evaluated is a parameter: \<open>None\<close> is the module as it
  stands in the file (the lookup raises \<^verbatim>\<open>NameError\<close>), \<open>Some join\<close> a module in
  which the name is bound to the standard library.
\<close>

fun os_path_join :: "(string \<Rightarrow> string \<Rightarrow> string) option \<Rightarrow> string \<Rightarrow> string \<Rightarrow> py_error + string" where
  "os_path_join None a b = Inl NameError"
| "os_path_join (Some join) a b = Inr (join a b)"

text \<open>\<^verbatim>\<open>posixpath.join\<close> on two components.\<close>

definition posix_join :: "string \<Rightarrow> string \<Rightarrow> string" where
  "posix_join a b =
     (if take 1 b = ''/'' then b
      else if a = [] \<or> take 1 (rev a) = ''/'' then a @ b
      else a @ ''/'' @ b)"

text \<open>
  The items a full iteration of \<^verbatim>\<open>get_keys_in_folder(tfolder, path)\<close> collects, or the
  exception that ends it. A folder key yields the generator object of the nested call
  (\<^verbatim>\<open>yield\<close>, not \<^verbatim>\<open>yield from\<close>).
\<close>

fun get_keys_in_folder ::
  "(string \<Rightarrow> string \<Rightarrow> string) option \<Rightarrow> tkey list \<Rightarrow> string \<Rightarrow> py_error + item list" where
  "get_keys_in_folder os [] path = Inr []"
| "get_keys_in_folder os (Folder name sub # ks) path =
     (case os_path_join os path name of
        Inl e \<Rightarrow> Inl e
      | Inr newpath \<Rightarrow>
          (case get_keys_in_folder os ks path of
             Inl e \<Rightarrow> Inl e
           | Inr rest \<Rightarrow> Inr (Generator sub newpath # rest)))"
| "get_keys_in_folder os (Leaf name # ks) path =
     (case os_path_join os path name of
        Inl e \<Rightarrow> Inl e
      | Inr p \<Rightarrow>
          (case get_keys_in_folder os ks path of
             Inl e \<Rightarrow> Inl e
           | Inr rest \<Rightarrow> Inr (Path p # rest)))"

text \<open>
  \<^verbatim>\<open>get_list_of_keys_deep(tfile)\<close> on the keys of the file's top directory: a folder
  delegates to \<^verbatim>\<open>get_keys_in_folder\<close> with the folder's name as path
  (\<^verbatim>\<open>yield from\<close>), a leaf yields its name.
\<close>

fun get_list_of_keys_deep ::
  "(string \<Rightarrow> string \<Rightarrow> string) option \<Rightarrow> tkey list \<Rightarrow> py_error + item list" where
  "get_list_of_keys_deep os [] = Inr []"
| "get_list_of_keys_deep os (Folder name sub # ks) =
     (case get_keys_in_folder os sub name of
        Inl e \<Rightarrow> Inl e
      | Inr items \<Rightarrow>
          (case get_list_of_keys_deep os ks of
             Inl e \<Rightarrow> Inl e
           | Inr rest \<Rightarrow> Inr (items @ rest)))"
| "get_list_of_keys_deep os (Leaf name # ks) =
     (case get_list_of_keys_deep os ks of
        Inl e \<Rightarrow> Inl e
      | Inr rest \<Rightarrow> Inr (Path name # rest))"

text \<open>
  The enumeration as the specification words it, for comparison: the path of every
  leaf, formed by joining the names of the enclosing folders and the leaf's own name,
  folders being descended into and not listed.
\<close>

fun spec_leaf_paths :: "string \<Rightarrow> tkey \<Rightarrow> string list" where
  "spec_leaf_paths path (Leaf name) = [posix_join path name]"
| "spec_leaf_paths path (Folder name sub) =
     concat (map (spec_leaf_paths (posix_join path name)) sub)"

definition spec_keys_deep :: "tkey list \<Rightarrow> item list" where
  "spec_keys_deep ks = map Path (concat (map (spec_leaf_paths []) ks))"

section \<open>Reference predicates and example inputs\<close>

text \<open>
  Every cell of the two histograms compares equal under the float comparison
  \<^verbatim>\<open>==\<close>, over the cells \<^verbatim>\<open>range(0, ncells)\<close> of the first.
\<close>

definition cells_equal :: "tobject \<Rightarrow> tobject \<Rightarrow> bool" where
  "cells_equal h1 h2 =
     list_all (\<lambda>b. py_eq (GetBinContent h1 b) (GetBinContent h2 b)) [0 ..< nat (GetNcells h1)]"

text \<open>
  The keys of either file that \<^verbatim>\<open>--plot\<close> selects: all of them when the option is
  not given.
\<close>

definition keys_matching_plot :: "args \<Rightarrow> string fset \<Rightarrow> string fset \<Rightarrow> string fset" where
  "keys_matching_plot args keys1 keys2 =
     (case arg_plot args of
        None \<Rightarrow> keys1 |\<union>| keys2
      | Some plot \<Rightarrow> ffilter (search plot) (keys1 |\<union>| keys2))"

text \<open>
  For a key of both files: both objects are retrieved and \<^verbatim>\<open>compare_plot\<close> returns
  on them; and \<^verbatim>\<open>compare_plot\<close> returns \<open>True\<close> on them, the pair is classified
  identical.
\<close>

definition comparable :: "tfile \<Rightarrow> tfile \<Rightarrow> int \<Rightarrow> string \<Rightarrow> bool" where
  "comparable tf1 tf2 verbosity plot =
     (case (Get tf1 plot, Get tf2 plot) of
        (Some h1, Some h2) \<Rightarrow>
          (case snd (compare_plot h1 h2 verbosity) of Inl e \<Rightarrow> False | Inr r \<Rightarrow> True)
      | _ \<Rightarrow> False)"

definition classified_identical :: "tfile \<Rightarrow> tfile \<Rightarrow> int \<Rightarrow> string \<Rightarrow> bool" where
  "classified_identical tf1 tf2 verbosity plot =
     (case (Get tf1 plot, Get tf2 plot) of
        (Some h1, Some h2) \<Rightarrow> snd (compare_plot h1 h2 verbosity) = Inr (Some True)
      | _ \<Rightarrow> False)"

text \<open>
  A one-dimensional histogram with the given cells and integral, and an object that is
  not a histogram.
\<close>

definition example_th1 :: "string \<Rightarrow> pyfloat list \<Rightarrow> pyfloat \<Rightarrow> tobject" where
  "example_th1 name cells integral =
     \<lparr>GetName = name, ClassName = ''TH1F'', InheritsFrom_TH1 = True, GetDimension = 1,
      GetNcells = int (length cells), GetBinContent = (\<lambda>b. cells ! b),
      Integral_all = integral\<rparr>"

definition example_tree :: "string \<Rightarrow> tobject" where
  "example_tree name =
     \<lparr>GetName = name, ClassName = ''TTree'', InheritsFrom_TH1 = False, GetDimension = 0,
      GetNcells = 0, GetBinContent = (\<lambda>b. NaN), Integral_all = NaN\<rparr>"

text \<open>
  Arguments of a run in full content mode with no regular expression, an opened file
  with the objects it holds, a regular expression that matches one name only, and a
  \<^verbatim>\<open>diff\<close> program that tells only whether the two lists differ.
\<close>

definition example_args :: "int \<Rightarrow> args" where
  "example_args v =
     \<lparr>arg_plot = None, arg_plot_exclude = None, arg_diff = False, arg_set = False,
      arg_verbosity = v\<rparr>"

definition example_file :: "nat \<Rightarrow> (string \<times> tobject) list \<Rightarrow> tfile" where
  "example_file ino objs = \<lparr>st_ino = ino, st_dev = 0, Get = map_of objs\<rparr>"

definition example_regex :: "string \<Rightarrow> regex" where
  "example_regex name = \<lparr>pattern = ''^'' @ name @ ''$'', search = (\<lambda>k. k = name)\<rparr>"

definition example_diff :: "string list \<Rightarrow> string list \<Rightarrow> int \<times> string" where
  "example_diff a b = (if a = b then (0, []) else (1, ''differ''))"

section \<open>Properties of the content comparator\<close>

lemma snd_andthen:
  "snd (andthen m f) = (case snd m of Inl e \<Rightarrow> Inl e | Inr x \<Rightarrow> snd (f x))"
  by (cases m) (auto simp: andthen_def split: sum.splits prod.splits)

lemma snd_say [simp]: "snd (say ls) = Inr ()"
  by (simp add: say_def)

lemma snd_ret [simp]: "snd (ret x) = Inr x"
  by (simp add: ret_def)

lemma snd_raise [simp]: "snd (raise e) = Inl e"
  by (simp add: raise_def)

lemma scan_bins_ok:
  "fst (scan_bins peb name h1 h2 bs (ok, ph, out)) =
     (ok \<and> list_all (\<lambda>b. py_eq (GetBinContent h1 b) (GetBinContent h2 b)) bs)"
proof (induction bs arbitrary: ok ph out)
  case Nil
  show ?case by simp
next
  case (Cons b bs)
  obtain ph' out' where hdr: "print_header name (ph, out) = (ph', out')"
    by (cases "print_header name (ph, out)")
  show ?case
  proof (cases "py_ne (GetBinContent h1 b) (GetBinContent h2 b)")
    case True
    then show ?thesis
      using Cons.IH [of False ph' "out' @ [BinLine b (GetBinContent h1 b) (GetBinContent h2 b)]"] hdr
      by (cases peb) (simp_all add: Let_def py_ne_def del: print_header.simps)
  next
    case False
    then show ?thesis
      using Cons.IH [of ok ph out] by (simp add: Let_def py_ne_def)
  qed
qed

lemma snd_integral_report:
  "snd (integral_report name h1 h2 ok pgp) =
     (if \<not> ok \<and> \<not> py_eq (Integral_all h1) (Integral_all h2) \<and> Integral_all h1 = Fin 0
      then Inl ZeroDivisionError else Inr ())"
  by (auto simp: integral_report_def Let_def float_div_raises_def)

text \<open>
  What \<^verbatim>\<open>compare_plot\<close> gives on two histograms of equal dimension and cell count: the
  result of the cell comparison, but for one case in which the summary line divides by
  a zero integral.
\<close>

lemma compare_plot_result:
  assumes "InheritsFrom_TH1 h1" "InheritsFrom_TH1 h2"
    and "GetDimension h1 = GetDimension h2" "GetNcells h1 = GetNcells h2"
  shows "snd (compare_plot h1 h2 v) =
     (if \<not> cells_equal h1 h2 \<and> v = 2 \<and> \<not> py_eq (Integral_all h1) (Integral_all h2)
          \<and> Integral_all h1 = Fin 0
      then Inl ZeroDivisionError else Inr (Some (cells_equal h1 h2)))"
proof -
  obtain ok ph out where sc:
    "scan_bins (3 \<le> v) (GetName h1) h1 h2 [0 ..< nat (GetNcells h2)] (True, False, []) = (ok, ph, out)"
    by (cases "scan_bins (3 \<le> v) (GetName h1) h1 h2 [0 ..< nat (GetNcells h2)] (True, False, [])")
  have ok: "ok = cells_equal h1 h2"
    using scan_bins_ok [of "3 \<le> v" "GetName h1" h1 h2 "[0 ..< nat (GetNcells h2)]" True False "[]"] sc assms
    by (simp add: cells_equal_def)
  show ?thesis
    using assms sc ok
    by (auto simp: compare_plot_def Let_def snd_andthen snd_integral_report)
qed

text \<open>
  The early-exit scan and the full scan agree on \<^verbatim>\<open>ok_content\<close>, and whenever
  \<^verbatim>\<open>compare_plot\<close> returns at two verbosities it returns the same value.
\<close>

lemma scan_bins_early_exit_agrees:
  "fst (scan_bins False name h1 h2 bs (ok, ph, out)) =
   fst (scan_bins True name h1 h2 bs (ok, ph', out'))"
  by (simp add: scan_bins_ok)

lemma compare_plot_returned_value_independent:
  assumes "InheritsFrom_TH1 h1" "InheritsFrom_TH1 h2"
    and "GetDimension h1 = GetDimension h2" "GetNcells h1 = GetNcells h2"
    and "snd (compare_plot h1 h2 v) = Inr r" and "snd (compare_plot h1 h2 v') = Inr r'"
  shows "r = r'"
proof -
  have "r = Some (cells_equal h1 h2)"
    using compare_plot_result [OF assms(1-4), of v] assms(5) by (simp split: if_splits)
  moreover have "r' = Some (cells_equal h1 h2)"
    using compare_plot_result [OF assms(1-4), of v'] assms(6) by (simp split: if_splits)
  ultimately show ?thesis by simp
qed

lemma cells_equal_iff:
  "cells_equal h1 h2 =
     (\<forall>b. b < nat (GetNcells h1) \<longrightarrow> py_eq (GetBinContent h1 b) (GetBinContent h2 b))"
  by (auto simp: cells_equal_def list_all_iff)

text \<open>
  Claim C1. For two objects that both inherit from TH1 and have equal dimension and
  equal cell count, \<^verbatim>\<open>compare_plot\<close> returns \<open>True\<close> if and only if, for every cell
  index below the cell count, the two bin contents compare equal under the float
  comparison \<^verbatim>\<open>==\<close> (no tolerance; a NaN cell compares unequal to everything); this
  holds at every verbosity. Where no cell is NaN, the comparison is equality of the
  contents.
\<close>

theorem compare_plot_identical_iff:
  assumes "InheritsFrom_TH1 h1" and "InheritsFrom_TH1 h2"
    and "GetDimension h1 = GetDimension h2" and "GetNcells h1 = GetNcells h2"
  shows "((snd (compare_plot h1 h2 verbosity) = Inr (Some True)) =
           (\<forall>b. b < nat (GetNcells h1) \<longrightarrow> py_eq (GetBinContent h1 b) (GetBinContent h2 b)))
       \<and> ((\<forall>b. b < nat (GetNcells h1) \<longrightarrow> GetBinContent h1 b \<noteq> NaN \<and> GetBinContent h2 b \<noteq> NaN)
           \<longrightarrow> (snd (compare_plot h1 h2 verbosity) = Inr (Some True)) =
                 (\<forall>b. b < nat (GetNcells h1) \<longrightarrow> GetBinContent h1 b = GetBinContent h2 b))"
proof -
  have first: "(snd (compare_plot h1 h2 verbosity) = Inr (Some True)) = cells_equal h1 h2"
    using compare_plot_result [OF assms, of verbosity] by (simp split: if_splits)
  have second: "cells_equal h1 h2 = (\<forall>b. b < nat (GetNcells h1) \<longrightarrow> GetBinContent h1 b = GetBinContent h2 b)"
    if "\<forall>b. b < nat (GetNcells h1) \<longrightarrow> GetBinContent h1 b \<noteq> NaN \<and> GetBinContent h2 b \<noteq> NaN"
    using that by (auto simp: cells_equal_iff py_eq_def)
  show ?thesis
    using first second by (simp add: cells_equal_iff)
qed

theorem compare_plot_identical_iff_witness:
  "InheritsFrom_TH1 (example_th1 ''h'' [Fin 0, Fin 1] (Fin 1))
   \<and> GetDimension (example_th1 ''h'' [Fin 0, Fin 1] (Fin 1)) = 1
   \<and> GetNcells (example_th1 ''h'' [Fin 0, Fin 1] (Fin 1)) = 2
   \<and> snd (compare_plot (example_th1 ''h'' [Fin 0, Fin 1] (Fin 1))
            (example_th1 ''h'' [Fin 0, Fin 1] (Fin 1)) 0) = Inr (Some True)
   \<and> snd (compare_plot (example_th1 ''h'' [Fin 0, Fin 1] (Fin 1))
            (example_th1 ''h'' [Fin 0, Fin 2] (Fin 2)) 0) \<noteq> Inr (Some True)"
proof -
  have two: "b < 2 \<Longrightarrow> b = 0 \<or> b = Suc 0" for b :: nat
    by arith
  have same: "\<forall>b. b < nat (GetNcells (example_th1 ''h'' [Fin 0, Fin 1] (Fin 1))) \<longrightarrow>
      py_eq (GetBinContent (example_th1 ''h'' [Fin 0, Fin 1] (Fin 1)) b)
            (GetBinContent (example_th1 ''h'' [Fin 0, Fin 1] (Fin 1)) b)"
    by (auto simp: example_th1_def py_eq_def dest!: two)
  have differ: "\<not> (\<forall>b. b < nat (GetNcells (example_th1 ''h'' [Fin 0, Fin 1] (Fin 1))) \<longrightarrow>
      py_eq (GetBinContent (example_th1 ''h'' [Fin 0, Fin 1] (Fin 1)) b)
            (GetBinContent (example_th1 ''h'' [Fin 0, Fin 2] (Fin 2)) b))"
    by (auto simp: example_th1_def py_eq_def intro!: exI [of _ "Suc 0"])
  have a: "snd (compare_plot (example_th1 ''h'' [Fin 0, Fin 1] (Fin 1))
            (example_th1 ''h'' [Fin 0, Fin 1] (Fin 1)) 0) = Inr (Some True)"
    using same
      compare_plot_identical_iff [of "example_th1 ''h'' [Fin 0, Fin 1] (Fin 1)"
        "example_th1 ''h'' [Fin 0, Fin 1] (Fin 1)" 0]
    by (simp add: example_th1_def)
  have b: "snd (compare_plot (example_th1 ''h'' [Fin 0, Fin 1] (Fin 1))
            (example_th1 ''h'' [Fin 0, Fin 2] (Fin 2)) 0) \<noteq> Inr (Some True)"
    using differ
      compare_plot_identical_iff [of "example_th1 ''h'' [Fin 0, Fin 1] (Fin 1)"
        "example_th1 ''h'' [Fin 0, Fin 2] (Fin 2)" 0]
    by (simp add: example_th1_def)
  show ?thesis
    using a b by (simp add: example_th1_def)
qed

text \<open>
  Claim C8. The claim says that the returned classification and the exit status do
  not depend on the verbosity. The two scans do agree, but on an empty first
  histogram (integral zero) against a second one with one filled cell,
  \<^verbatim>\<open>compare_plot\<close> returns \<open>False\<close> at verbosity 1 and 3, and at verbosity 2 raises
  \<^verbatim>\<open>ZeroDivisionError\<close> in the summary line, which divides the second integral by
  the first; the process then ends with status 1 where the other verbosities give 13.
\<close>

theorem compare_plot_depends_on_verbosity:
  "snd (compare_plot (example_th1 ''h'' [Fin 0, Fin 0] (Fin 0))
          (example_th1 ''h'' [Fin 0, Fin 1] (Fin 1)) 1) = Inr (Some False)
   \<and> snd (compare_plot (example_th1 ''h'' [Fin 0, Fin 0] (Fin 0))
          (example_th1 ''h'' [Fin 0, Fin 1] (Fin 1)) 2) = Inl ZeroDivisionError
   \<and> snd (compare_plot (example_th1 ''h'' [Fin 0, Fin 0] (Fin 0))
          (example_th1 ''h'' [Fin 0, Fin 1] (Fin 1)) 3) = Inr (Some False)
   \<and> process_exit (main (example_args 1) example_diff
        (example_file 1 [(''h'', example_th1 ''h'' [Fin 0, Fin 0] (Fin 0))]) {|''h''|}
        (example_file 2 [(''h'', example_th1 ''h'' [Fin 0, Fin 1] (Fin 1))]) {|''h''|})
       = status_value DIFFERENCE_COMMON
   \<and> process_exit (main (example_args 2) example_diff
        (example_file 1 [(''h'', example_th1 ''h'' [Fin 0, Fin 0] (Fin 0))]) {|''h''|}
        (example_file 2 [(''h'', example_th1 ''h'' [Fin 0, Fin 1] (Fin 1))]) {|''h''|})
       = 1"
  by code_simp

section \<open>Properties of the key enumerator\<close>

text \<open>
  Claim C2. The claim says that every leaf path is yielded at any nesting depth and
  that folders are descended into. For a file whose folder \<open>a\<close> holds a folder
  \<open>b\<close> with the leaf \<open>h\<close>, the enumeration yields the generator object of the
  nested call and no path, where the claim asks for the one path \<open>a/b/h\<close>; and in
  the module as it stands, which does not import \<^verbatim>\<open>os\<close>, the first key inside any
  folder raises \<^verbatim>\<open>NameError\<close>.
\<close>

theorem get_list_of_keys_deep_nested_folder:
  "get_list_of_keys_deep (Some posix_join) [Folder ''a'' [Folder ''b'' [Leaf ''h'']]]
     = Inr [Generator [Leaf ''h''] ''a/b'']
   \<and> get_list_of_keys_deep None [Folder ''a'' [Folder ''b'' [Leaf ''h'']]] = Inl NameError
   \<and> get_list_of_keys_deep None [Folder ''a'' [Leaf ''h'']] = Inl NameError
   \<and> spec_keys_deep [Folder ''a'' [Folder ''b'' [Leaf ''h'']]] = [Path ''a/b/h'']"
  by code_simp

section \<open>Properties of the reports and of the set comparator\<close>

lemma snd_percent:
  "snd (percent n t) = (if t = 0 then Inl ZeroDivisionError else Inr (of_int (100 * int n) / of_int t))"
  by (simp add: percent_def)

lemma snd_print_subset:
  "snd (print_subset line keys t pp) =
     (if fcard keys > 0 \<and> t = 0 then Inl ZeroDivisionError else Inr ())"
  by (auto simp: print_subset_def snd_andthen snd_percent fcard_fempty)

lemma snd_print_missing:
  "snd (print_missing missing1 missing2 common v t) =
     (if t = 0 \<and> (fcard missing1 > 0 \<or> fcard missing2 > 0 \<or> fcard common > 0)
      then Inl ZeroDivisionError else Inr ())"
  by (auto simp: print_missing_def Let_def snd_andthen snd_print_subset fcard_fempty)

lemma snd_print_content_status: "snd (print_content_status ok bad) = Inr ()"
  by (simp add: print_content_status_def Let_def snd_andthen snd_percent)

lemma fcard_pos_iff: "(0 < fcard A) = (A \<noteq> {||})"
  using fcard_0_eq [of A] by (cases "fcard A") simp_all

lemma fcard_subset_pos: "A |\<subseteq>| U \<Longrightarrow> fcard A > 0 \<Longrightarrow> fcard U > 0"
  using fcard_mono [of A U] by linarith

text \<open>
  \<^verbatim>\<open>print_missing\<close> raises only when the total is zero and one of the three sets
  is not empty; with subsets of a set whose size is the total it never does.
\<close>

lemma print_missing_subsets:
  assumes "missing1 |\<subseteq>| u" "missing2 |\<subseteq>| u" "common |\<subseteq>| u"
  shows "snd (print_missing missing1 missing2 common v (int (fcard u))) = Inr ()"
  using assms fcard_subset_pos [of missing1 u] fcard_subset_pos [of missing2 u]
    fcard_subset_pos [of common u]
  by (auto simp: snd_print_missing)

lemma diff_set_common_empty: "diff_set_common keys1 keys2 = {||}"
  by (auto simp: diff_set_common_def Let_def)

text \<open>
  What \<^verbatim>\<open>diff_set\<close> returns: the second status when the second file misses a key,
  and \<open>None\<close> in every other case.
\<close>

lemma snd_diff_set:
  "snd (diff_set keys1 keys2 v) =
     Inr (if fcard (keys1 |-| keys2) > 0 then Some (status_value SECOND_MISS) else None)"
proof -
  have "snd (print_missing (keys2 |-| keys1) (keys1 |-| keys2) (diff_set_common keys1 keys2) v
          (int (fcard (keys1 |\<union>| keys2)))) = Inr ()"
    by (rule print_missing_subsets) (auto simp: diff_set_common_empty)
  then show ?thesis
    by (simp add: diff_set_def Let_def snd_andthen fcard_pos_iff)
qed

text \<open>
  Claim C10. No percentage of the two reporting functions divides by zero:
  \<^verbatim>\<open>print_content_status\<close> never raises; \<^verbatim>\<open>print_missing\<close> does not raise when its
  three sets are subsets of a set whose size is the total, since it divides only for a
  set that is not empty; and that is the case at both of its call sites, in
  \<^verbatim>\<open>diff_set\<close> (total: the size of the union of the key sets) and in \<^verbatim>\<open>main\<close>
  (total: the size of the selected keys).
\<close>

theorem reports_positive_denominator:
  "snd (print_content_status ok bad) = Inr ()
   \<and> (missing1 |\<subseteq>| u \<and> missing2 |\<subseteq>| u \<and> common |\<subseteq>| u \<longrightarrow>
        snd (print_missing missing1 missing2 common verbosity (int (fcard u))) = Inr ())
   \<and> snd (print_missing (keys2 |-| keys1) (keys1 |-| keys2) (diff_set_common keys1 keys2)
          verbosity (int (fcard (keys1 |\<union>| keys2)))) = Inr ()
   \<and> snd (print_missing (missing_keys 1 matching_keys keys1 keys2)
          (missing_keys 2 matching_keys keys1 keys2) (common_keys matching_keys keys1 keys2)
          verbosity (int (fcard matching_keys))) = Inr ()"
proof -
  have a: "snd (print_content_status ok bad) = Inr ()"
    by (rule snd_print_content_status)
  have b: "snd (print_missing (keys2 |-| keys1) (keys1 |-| keys2) (diff_set_common keys1 keys2)
          verbosity (int (fcard (keys1 |\<union>| keys2)))) = Inr ()"
    by (rule print_missing_subsets) (auto simp: diff_set_common_empty)
  have c: "snd (print_missing (missing_keys 1 matching_keys keys1 keys2)
          (missing_keys 2 matching_keys keys1 keys2) (common_keys matching_keys keys1 keys2)
          verbosity (int (fcard matching_keys))) = Inr ()"
    by (rule print_missing_subsets) (auto simp: missing_keys_def common_keys_def)
  show ?thesis
    using a b c print_missing_subsets [of missing1 u missing2 common verbosity] by blast
qed

theorem reports_positive_denominator_witness:
  "{|''a''|} |\<subseteq>| {|''a'', ''b''|} \<and> {||} |\<subseteq>| {|''a'', ''b''|} \<and> {|''b''|} |\<subseteq>| {|''a'', ''b''|}
   \<and> snd (print_missing {|''a''|} {||} {|''b''|} 4 (int (fcard {|''a'', ''b''|}))) = Inr ()
   \<and> snd (print_missing {|''a''|} {||} {|''b''|} 4 0) = Inl ZeroDivisionError"
proof -
  have "snd (print_missing {|''a''|} {||} {|''b''|} 4 0) = Inl ZeroDivisionError"
    by (simp add: snd_print_missing)
  then show ?thesis
    using reports_positive_denominator [of 0 0 "{|''a''|}" "{|''a'', ''b''|}" "{||}" "{|''b''|}" 4]
    by simp
qed

text \<open>
  Claim C3. The claim says that \<^verbatim>\<open>diff_set\<close> reports the intersection of the two
  key sets as the common subset. The common subset it computes is empty for every
  pair of key sets. On two files that both hold the one key \<open>a\<close>, where the
  intersection is that key, it prints nothing; the full content mode on the same key
  sets prints the common line.
\<close>

theorem diff_set_reports_no_common:
  "diff_set_common keys1 keys2 = {||}
   \<and> {|''a''|} |\<inter>| {|''a''|} = {|''a''|}
   \<and> diff_set {|''a''|} {|''a''|} 4 = ([], Inr None)
   \<and> fst (main (example_args 4) example_diff
        (example_file 1 [(''a'', example_th1 ''a'' [Fin 0] (Fin 0))]) {|''a''|}
        (example_file 2 [(''a'', example_th1 ''a'' [Fin 0] (Fin 0))]) {|''a''|})
       = [TotalKeys 1, Blank, CommonIn12 1 1 100, Plot ''a'', Blank, Blank, SameContent 1 1 100]"
proof -
  have always: "diff_set_common keys1 keys2 = {||}"
    by (rule diff_set_common_empty)
  have at_a: "{|''a''|} |\<inter>| {|''a''|} = {|''a''|}
     \<and> diff_set {|''a''|} {|''a''|} 4 = ([], Inr None)
     \<and> fst (main (example_args 4) example_diff
        (example_file 1 [(''a'', example_th1 ''a'' [Fin 0] (Fin 0))]) {|''a''|}
        (example_file 2 [(''a'', example_th1 ''a'' [Fin 0] (Fin 0))]) {|''a''|})
       = [TotalKeys 1, Blank, CommonIn12 1 1 100, Plot ''a'', Blank, Blank, SameContent 1 1 100]"
    by code_simp
  show ?thesis
    using always at_a by blast
qed

text \<open>
  Claim C4. The claim says that the set-only mode exits with FIRST\_MISS (11) when
  only the first file misses keys. \<^verbatim>\<open>diff_set\<close> returns that status for no pair of
  key sets. With no key in the first file and the key \<open>a\<close> in the second,
  \<^verbatim>\<open>main\<close> in set-only mode returns \<open>None\<close> and the process exits with status 0.
\<close>

theorem diff_set_never_first_miss:
  "snd (diff_set keys1 keys2 verbosity) \<noteq> Inr (Some (status_value FIRST_MISS))
   \<and> main ((example_args 1)\<lparr>arg_set := True\<rparr>) example_diff
      (example_file 1 []) {||} (example_file 2 []) {|''a''|}
     = ([MissingFrom1 1 1 100], Inr None)
   \<and> process_exit (main ((example_args 1)\<lparr>arg_set := True\<rparr>) example_diff
      (example_file 1 []) {||} (example_file 2 []) {|''a''|}) = 0
   \<and> status_value FIRST_MISS = 11"
proof -
  have never: "snd (diff_set keys1 keys2 verbosity) \<noteq> Inr (Some (status_value FIRST_MISS))"
    by (simp add: snd_diff_set)
  have at_a: "main ((example_args 1)\<lparr>arg_set := True\<rparr>) example_diff
      (example_file 1 []) {||} (example_file 2 []) {|''a''|}
     = ([MissingFrom1 1 1 100], Inr None)
   \<and> process_exit (main ((example_args 1)\<lparr>arg_set := True\<rparr>) example_diff
      (example_file 1 []) {||} (example_file 2 []) {|''a''|}) = 0
   \<and> status_value FIRST_MISS = 11"
    by code_simp
  show ?thesis
    using never at_a by blast
qed

section \<open>Properties of the orchestrator\<close>

text \<open>
  What the selection of keys returns: an early return with the status for argument
  errors when a regular expression leaves no key, and the selected keys otherwise.
\<close>

lemma snd_select_keys:
  "snd (select_keys args keys1 keys2) =
     Inr (if arg_plot args \<noteq> None \<and> keys_matching_plot args keys1 keys2 = {||}
          then Inl (status_value CLARG_ERROR)
          else (case arg_plot_exclude args of
                  None \<Rightarrow> Inr (keys_matching_plot args keys1 keys2)
                | Some ex \<Rightarrow>
                    if ffilter (\<lambda>k. \<not> search ex k) (keys_matching_plot args keys1 keys2) = {||}
                    then Inl (status_value CLARG_ERROR)
                    else Inr (ffilter (\<lambda>k. \<not> search ex k) (keys_matching_plot args keys1 keys2))))"
  by (auto simp: select_keys_def keys_matching_plot_def snd_andthen Let_def
      split: option.splits)

lemma select_keys_subset:
  assumes "snd (select_keys args keys1 keys2) = Inr (Inr m)"
  shows "m |\<subseteq>| keys1 |\<union>| keys2"
  using assms
  by (auto simp: snd_select_keys keys_matching_plot_def split: if_splits option.splits)

text \<open>
  Claim C9. In full content mode, for every pair of key sets and every selection by
  the two regular expressions, the keys missing from the first file, the keys missing
  from the second and the common keys are pairwise disjoint, their union is the set of
  selected keys, and their sizes add up to its size, the total of the percentages.
\<close>

theorem comparison_subsets_partition:
  assumes "snd (select_keys args keys1 keys2) = Inr (Inr matching_keys)"
  shows "missing_keys 1 matching_keys keys1 keys2 |\<inter>| missing_keys 2 matching_keys keys1 keys2 = {||}
       \<and> missing_keys 1 matching_keys keys1 keys2 |\<inter>| common_keys matching_keys keys1 keys2 = {||}
       \<and> missing_keys 2 matching_keys keys1 keys2 |\<inter>| common_keys matching_keys keys1 keys2 = {||}
       \<and> missing_keys 1 matching_keys keys1 keys2 |\<union>| missing_keys 2 matching_keys keys1 keys2
            |\<union>| common_keys matching_keys keys1 keys2 = matching_keys
       \<and> fcard (missing_keys 1 matching_keys keys1 keys2)
            + fcard (missing_keys 2 matching_keys keys1 keys2)
            + fcard (common_keys matching_keys keys1 keys2) = fcard matching_keys"
proof -
  have sub: "matching_keys |\<subseteq>| keys1 |\<union>| keys2"
    using assms by (rule select_keys_subset)
  have d12: "missing_keys 1 matching_keys keys1 keys2 |\<inter>| missing_keys 2 matching_keys keys1 keys2 = {||}"
    using sub by (auto simp: missing_keys_def)
  have d1c: "missing_keys 1 matching_keys keys1 keys2 |\<inter>| common_keys matching_keys keys1 keys2 = {||}"
    by (auto simp: missing_keys_def common_keys_def)
  have d2c: "missing_keys 2 matching_keys keys1 keys2 |\<inter>| common_keys matching_keys keys1 keys2 = {||}"
    by (auto simp: missing_keys_def common_keys_def)
  have un: "missing_keys 1 matching_keys keys1 keys2 |\<union>| missing_keys 2 matching_keys keys1 keys2
            |\<union>| common_keys matching_keys keys1 keys2 = matching_keys"
    by (auto simp: missing_keys_def common_keys_def)
  have d12c: "(missing_keys 1 matching_keys keys1 keys2 |\<union>| missing_keys 2 matching_keys keys1 keys2)
            |\<inter>| common_keys matching_keys keys1 keys2 = {||}"
    using d1c d2c by (simp add: inf_sup_distrib2)
  have "fcard matching_keys =
      fcard (missing_keys 1 matching_keys keys1 keys2 |\<union>| missing_keys 2 matching_keys keys1 keys2)
        + fcard (common_keys matching_keys keys1 keys2)"
    using fcard_funion_disjoint [OF d12c] un by simp
  also have "fcard (missing_keys 1 matching_keys keys1 keys2 |\<union>| missing_keys 2 matching_keys keys1 keys2)
      = fcard (missing_keys 1 matching_keys keys1 keys2) + fcard (missing_keys 2 matching_keys keys1 keys2)"
    using fcard_funion_disjoint [OF d12] .
  finally show ?thesis
    using d12 d1c d2c un by simp
qed

theorem comparison_subsets_partition_witness:
  "snd (select_keys (example_args 1) {|''h'', ''x''|} {|''h'', ''y''|})
     = Inr (Inr {|''h'', ''x'', ''y''|})
   \<and> missing_keys 1 {|''h'', ''x'', ''y''|} {|''h'', ''x''|} {|''h'', ''y''|} = {|''y''|}
   \<and> missing_keys 2 {|''h'', ''x'', ''y''|} {|''h'', ''x''|} {|''h'', ''y''|} = {|''x''|}
   \<and> common_keys {|''h'', ''x'', ''y''|} {|''h'', ''x''|} {|''h'', ''y''|} = {|''h''|}
   \<and> fcard (missing_keys 1 {|''h'', ''x'', ''y''|} {|''h'', ''x''|} {|''h'', ''y''|})
       + fcard (missing_keys 2 {|''h'', ''x'', ''y''|} {|''h'', ''x''|} {|''h'', ''y''|})
       + fcard (common_keys {|''h'', ''x'', ''y''|} {|''h'', ''x''|} {|''h'', ''y''|})
       = fcard {|''h'', ''x'', ''y''|}"
proof -
  have sel: "snd (select_keys (example_args 1) {|''h'', ''x''|} {|''h'', ''y''|})
     = Inr (Inr {|''h'', ''x'', ''y''|})"
    by code_simp
  have m1: "missing_keys 1 {|''h'', ''x'', ''y''|} {|''h'', ''x''|} {|''h'', ''y''|} = {|''y''|}"
    by code_simp
  have m2: "missing_keys 2 {|''h'', ''x'', ''y''|} {|''h'', ''x''|} {|''h'', ''y''|} = {|''x''|}"
    by code_simp
  have c: "common_keys {|''h'', ''x'', ''y''|} {|''h'', ''x''|} {|''h'', ''y''|} = {|''h''|}"
    by code_simp
  show ?thesis
    using comparison_subsets_partition [OF sel] sel m1 m2 c by blast
qed

text \<open>
  The loop over the common keys, when every pair is retrieved and compared without an
  exception: it returns the counters, the pairs not classified identical are counted
  as bad, and every pair is counted once.
\<close>

lemma compare_common_counts:
  assumes "\<forall>k\<in>set ks. comparable tf1 tf2 v k"
  shows "\<exists>ok' bad'. snd (compare_common tf1 tf2 v ks (ok, bad)) = Inr (ok', bad')
           \<and> (0 < bad') = (0 < bad \<or> (\<exists>k\<in>set ks. \<not> classified_identical tf1 tf2 v k))
           \<and> ok' + bad' = ok + bad + length ks"
  using assms
proof (induction ks arbitrary: ok bad)
  case Nil
  show ?case by simp
next
  case (Cons k ks)
  from Cons.prems obtain h1 h2 r where
    g1: "Get tf1 k = Some h1" and g2: "Get tf2 k = Some h2"
    and cp: "snd (compare_plot h1 h2 v) = Inr r"
    by (auto simp: comparable_def split: option.splits sum.splits)
  have rest: "\<forall>k\<in>set ks. comparable tf1 tf2 v k"
    using Cons.prems by simp
  show ?case
  proof (cases "r = Some True")
    case True
    then have id: "classified_identical tf1 tf2 v k"
      using g1 g2 cp by (simp add: classified_identical_def)
    show ?thesis
      using Cons.IH [OF rest, of "ok + 1" bad] g1 g2 cp True id
      by (auto simp: snd_andthen)
  next
    case False
    then have nid: "\<not> classified_identical tf1 tf2 v k"
      using g1 g2 cp by (simp add: classified_identical_def)
    show ?thesis
      using Cons.IH [OF rest, of ok "bad + 1"] g1 g2 cp False nid
      by (auto simp: snd_andthen)
  qed
qed

text \<open>
  The status \<^verbatim>\<open>main\<close> returns in full content mode from its own counters, when the
  files differ, the selection leaves keys and every common pair is retrieved and
  compared without an exception: DIFFERENCE\_COMMON if the loop counted a pair in
  \<^verbatim>\<open>content_status['BAD']\<close>, that is a pair \<^verbatim>\<open>compare_plot\<close> did not return
  \<open>True\<close> for, otherwise SECOND\_MISS, FIRST\_MISS or IDENTICAL by the two sets
  of missing keys.
\<close>

lemma main_status_by_counters:
  assumes "\<not> (st_ino tf1 = st_ino tf2 \<and> st_dev tf1 = st_dev tf2)"
    and "\<not> arg_diff args" and "\<not> arg_set args"
    and "snd (select_keys args keys1 keys2) = Inr (Inr matching_keys)"
    and "\<forall>k. k |\<in>| common_keys matching_keys keys1 keys2 \<longrightarrow>
           comparable tf1 tf2 (arg_verbosity args) k"
  shows "snd (main args diff_prog tf1 keys1 tf2 keys2) =
     Inr (Some
       (if \<exists>k. k |\<in>| common_keys matching_keys keys1 keys2
               \<and> \<not> classified_identical tf1 tf2 (arg_verbosity args) k
        then status_value DIFFERENCE_COMMON
        else if missing_keys 2 matching_keys keys1 keys2 \<noteq> {||} then status_value SECOND_MISS
        else if missing_keys 1 matching_keys keys1 keys2 \<noteq> {||} then status_value FIRST_MISS
        else status_value IDENTICAL))"
proof -
  have all: "\<forall>k\<in>set (sorted_list_of_fset (common_keys matching_keys keys1 keys2)).
      comparable tf1 tf2 (arg_verbosity args) k"
    using assms(5) by simp
  obtain ok bad where
    loop: "snd (compare_common tf1 tf2 (arg_verbosity args)
             (sorted_list_of_fset (common_keys matching_keys keys1 keys2)) (0, 0)) = Inr (ok, bad)"
    and bad: "(0 < bad) = (\<exists>k\<in>set (sorted_list_of_fset (common_keys matching_keys keys1 keys2)).
                 \<not> classified_identical tf1 tf2 (arg_verbosity args) k)"
    using compare_common_counts [OF all, of 0 0] by auto
  have bad': "(0 < bad) = (\<exists>k. k |\<in>| common_keys matching_keys keys1 keys2
               \<and> \<not> classified_identical tf1 tf2 (arg_verbosity args) k)"
    using bad by auto
  have pm: "snd (print_missing (missing_keys 1 matching_keys keys1 keys2)
          (missing_keys 2 matching_keys keys1 keys2) (common_keys matching_keys keys1 keys2)
          (arg_verbosity args) (int (fcard matching_keys))) = Inr ()"
    by (rule print_missing_subsets) (auto simp: missing_keys_def common_keys_def)
  have "snd (main args diff_prog tf1 keys1 tf2 keys2) =
      Inr (Some
        (if 0 < bad then status_value DIFFERENCE_COMMON
         else if missing_keys 2 matching_keys keys1 keys2 \<noteq> {||} then status_value SECOND_MISS
         else if missing_keys 1 matching_keys keys1 keys2 \<noteq> {||} then status_value FIRST_MISS
         else status_value IDENTICAL))"
    using assms(1-4) loop pm
    by (cases "st_ino tf1 = st_ino tf2")
      (simp_all add: main_def snd_andthen Let_def snd_print_content_status fcard_pos_iff)
  then show ?thesis
    by (simp only: bad')
qed

text \<open>
  Claim C5. The claim says that in full content mode the exit status is
  DIFFERENCE\_COMMON (13) if a common pair has differing content, and otherwise
  follows the missing keys down to IDENTICAL (0). Two files that both hold the one
  object \<open>g\<close>, which is not a histogram, have no key missing and no cell compared,
  and \<^verbatim>\<open>main\<close> returns 13 where the claim gives 0. Two files whose one common
  histogram differs in its cell, the first with integral zero, make the run at
  verbosity 2 raise \<^verbatim>\<open>ZeroDivisionError\<close>, so the process exits with 1 where the
  claim gives 13.
\<close>

theorem main_status_not_by_content:
  "snd (compare_plot (example_tree ''g'') (example_tree ''g'') 0) = Inr None
   \<and> missing_keys 1 {|''g''|} {|''g''|} {|''g''|} = {||}
   \<and> missing_keys 2 {|''g''|} {|''g''|} {|''g''|} = {||}
   \<and> snd (main (example_args 0) example_diff
          (example_file 1 [(''g'', example_tree ''g'')]) {|''g''|}
          (example_file 2 [(''g'', example_tree ''g'')]) {|''g''|})
       = Inr (Some (status_value DIFFERENCE_COMMON))
   \<and> status_value DIFFERENCE_COMMON = 13
   \<and> status_value IDENTICAL = 0
   \<and> \<not> cells_equal (example_th1 ''k'' [Fin 0] (Fin 0)) (example_th1 ''k'' [Fin 2] (Fin 2))
   \<and> main (example_args 2) example_diff
        (example_file 1 [(''k'', example_th1 ''k'' [Fin 0] (Fin 0))]) {|''k''|}
        (example_file 2 [(''k'', example_th1 ''k'' [Fin 2] (Fin 2))]) {|''k''|}
       = ([TotalKeys 1, Blank], Inl ZeroDivisionError)
   \<and> process_exit (main (example_args 2) example_diff
        (example_file 1 [(''k'', example_th1 ''k'' [Fin 0] (Fin 0))]) {|''k''|}
        (example_file 2 [(''k'', example_th1 ''k'' [Fin 2] (Fin 2))]) {|''k''|})
       = 1"
  by code_simp

text \<open>
  Claim C6, as stated, fails: in set-only mode the regular expressions are never
  looked at. With \<^verbatim>\<open>--set\<close> and a \<^verbatim>\<open>--plot\<close> expression that matches no key, the
  key sets are compared and reported and the status is that of the comparison, not
  CLARG\_ERROR.
\<close>

theorem set_mode_ignores_plot_regex:
  "ffilter (search (example_regex ''zzz'')) ({|''a''|} |\<union>| {|''b''|}) = {||}
   \<and> main ((example_args 1)\<lparr>arg_set := True, arg_plot := Some (example_regex ''zzz'')\<rparr>)
        example_diff (example_file 1 []) {|''a''|} (example_file 2 []) {|''b''|}
     = ([MissingFrom1 1 2 50, MissingFrom2 1 2 50], Inr (Some (status_value SECOND_MISS)))
   \<and> status_value SECOND_MISS \<noteq> status_value CLARG_ERROR"
  by code_simp

text \<open>
  Claim C6, amended. Two file arguments that are the same file (same inode and
  device) are detected in every mode; in full content mode (neither \<^verbatim>\<open>--diff\<close> nor
  \<^verbatim>\<open>--set\<close>) a \<^verbatim>\<open>--plot\<close> expression that matches no key and a
  \<^verbatim>\<open>--plot-exclude\<close> expression that excludes every remaining key are detected.
  Each is reported with its message and \<^verbatim>\<open>main\<close> returns CLARG\_ERROR (2); what is
  printed is the message after the lines of the selection, so no object is compared.
  With \<^verbatim>\<open>--diff\<close> or \<^verbatim>\<open>--set\<close> the two expressions are not consulted: the run is
  that of the same arguments without them.
\<close>

theorem main_argument_errors:
  "(st_ino tf1 = st_ino tf2 \<and> st_dev tf1 = st_dev tf2 \<longrightarrow>
      main args diff_prog tf1 keys1 tf2 keys2 = ([SameFiles], Inr (Some (status_value CLARG_ERROR))))
   \<and> (\<not> (st_ino tf1 = st_ino tf2 \<and> st_dev tf1 = st_dev tf2) \<and> \<not> arg_diff args \<and> \<not> arg_set args
        \<and> arg_plot args = Some plot \<and> ffilter (search plot) (keys1 |\<union>| keys2) = {||} \<longrightarrow>
      main args diff_prog tf1 keys1 tf2 keys2 =
        ([TotalKeys (fcard (keys1 |\<union>| keys2)), NoKeysMatching (pattern plot)],
         Inr (Some (status_value CLARG_ERROR))))
   \<and> (\<not> (st_ino tf1 = st_ino tf2 \<and> st_dev tf1 = st_dev tf2) \<and> \<not> arg_diff args \<and> \<not> arg_set args
        \<and> arg_plot_exclude args = Some plot_exclude
        \<and> (arg_plot args = None \<or> keys_matching_plot args keys1 keys2 \<noteq> {||})
        \<and> ffilter (\<lambda>k. \<not> search plot_exclude k) (keys_matching_plot args keys1 keys2) = {||} \<longrightarrow>
      main args diff_prog tf1 keys1 tf2 keys2 =
        ([TotalKeys (fcard (keys1 |\<union>| keys2))]
           @ (case arg_plot args of
                None \<Rightarrow> []
              | Some plot' \<Rightarrow> [OfWhichMatching (pattern plot')
                                 (fcard (keys_matching_plot args keys1 keys2))])
           @ [AllKeysExcluded (pattern plot_exclude)],
         Inr (Some (status_value CLARG_ERROR))))
   \<and> (\<not> (st_ino tf1 = st_ino tf2 \<and> st_dev tf1 = st_dev tf2) \<and> (arg_diff args \<or> arg_set args) \<longrightarrow>
      main args diff_prog tf1 keys1 tf2 keys2 =
        main (args\<lparr>arg_plot := None, arg_plot_exclude := None\<rparr>) diff_prog tf1 keys1 tf2 keys2)"
proof (intro conjI impI)
  assume "st_ino tf1 = st_ino tf2 \<and> st_dev tf1 = st_dev tf2"
  then show "main args diff_prog tf1 keys1 tf2 keys2 =
      ([SameFiles], Inr (Some (status_value CLARG_ERROR)))"
    by (simp add: main_def andthen_def say_def ret_def)
next
  assume a: "\<not> (st_ino tf1 = st_ino tf2 \<and> st_dev tf1 = st_dev tf2) \<and> \<not> arg_diff args \<and> \<not> arg_set args
        \<and> arg_plot args = Some plot \<and> ffilter (search plot) (keys1 |\<union>| keys2) = {||}"
  have "select_keys args keys1 keys2 =
      ([TotalKeys (fcard (keys1 |\<union>| keys2)), NoKeysMatching (pattern plot)],
       Inr (Inl (status_value CLARG_ERROR)))"
    using a by (simp add: select_keys_def andthen_def say_def ret_def Let_def fcard_fempty)
  then show "main args diff_prog tf1 keys1 tf2 keys2 =
        ([TotalKeys (fcard (keys1 |\<union>| keys2)), NoKeysMatching (pattern plot)],
         Inr (Some (status_value CLARG_ERROR)))"
    using a by (cases "st_ino tf1 = st_ino tf2") (simp_all add: main_def andthen_def ret_def)
next
  assume a: "\<not> (st_ino tf1 = st_ino tf2 \<and> st_dev tf1 = st_dev tf2) \<and> \<not> arg_diff args \<and> \<not> arg_set args
        \<and> arg_plot_exclude args = Some plot_exclude
        \<and> (arg_plot args = None \<or> keys_matching_plot args keys1 keys2 \<noteq> {||})
        \<and> ffilter (\<lambda>k. \<not> search plot_exclude k) (keys_matching_plot args keys1 keys2) = {||}"
  have "select_keys args keys1 keys2 =
      ([TotalKeys (fcard (keys1 |\<union>| keys2))]
           @ (case arg_plot args of
                None \<Rightarrow> []
              | Some plot' \<Rightarrow> [OfWhichMatching (pattern plot')
                                 (fcard (keys_matching_plot args keys1 keys2))])
           @ [AllKeysExcluded (pattern plot_exclude)],
       Inr (Inl (status_value CLARG_ERROR)))"
    using a
    by (auto simp: select_keys_def keys_matching_plot_def andthen_def say_def ret_def Let_def
        fcard_fempty split: option.splits)
  then show "main args diff_prog tf1 keys1 tf2 keys2 =
        ([TotalKeys (fcard (keys1 |\<union>| keys2))]
           @ (case arg_plot args of
                None \<Rightarrow> []
              | Some plot' \<Rightarrow> [OfWhichMatching (pattern plot')
                                 (fcard (keys_matching_plot args keys1 keys2))])
           @ [AllKeysExcluded (pattern plot_exclude)],
         Inr (Some (status_value CLARG_ERROR)))"
    using a by (cases "st_ino tf1 = st_ino tf2") (simp_all add: main_def andthen_def ret_def)
next
  assume "\<not> (st_ino tf1 = st_ino tf2 \<and> st_dev tf1 = st_dev tf2) \<and> (arg_diff args \<or> arg_set args)"
  then show "main args diff_prog tf1 keys1 tf2 keys2 =
        main (args\<lparr>arg_plot := None, arg_plot_exclude := None\<rparr>) diff_prog tf1 keys1 tf2 keys2"
    by (cases "st_ino tf1 = st_ino tf2") (auto simp: main_def)
qed

theorem main_argument_errors_witness:
  "main (example_args 1) example_diff (example_file 1 []) {|''a''|} (example_file 1 []) {|''a''|}
     = ([SameFiles], Inr (Some 2))
   \<and> ffilter (search (example_regex ''zzz'')) ({|''a''|} |\<union>| {|''a''|}) = {||}
   \<and> main ((example_args 1)\<lparr>arg_plot := Some (example_regex ''zzz'')\<rparr>) example_diff
        (example_file 1 []) {|''a''|} (example_file 2 []) {|''a''|}
     = ([TotalKeys 1, NoKeysMatching ''^zzz$''], Inr (Some 2))
   \<and> ffilter (\<lambda>k. \<not> search (example_regex ''a'') k) ({|''a''|} |\<union>| {|''a''|}) = {||}
   \<and> main ((example_args 1)\<lparr>arg_plot_exclude := Some (example_regex ''a'')\<rparr>) example_diff
        (example_file 1 []) {|''a''|} (example_file 2 []) {|''a''|}
     = ([TotalKeys 1, AllKeysExcluded ''^a$''], Inr (Some 2))
   \<and> main ((example_args 1)\<lparr>arg_set := True, arg_plot := Some (example_regex ''zzz'')\<rparr>)
        example_diff (example_file 1 []) {|''a''|} (example_file 2 []) {|''b''|}
     = main ((example_args 1)\<lparr>arg_set := True\<rparr>)
        example_diff (example_file 1 []) {|''a''|} (example_file 2 []) {|''b''|}"
proof -
  have f1: "ffilter (search (example_regex ''zzz'')) ({|''a''|} |\<union>| {|''a''|}) = {||}"
    by code_simp
  have f2: "ffilter (\<lambda>k. \<not> search (example_regex ''a'') k) ({|''a''|} |\<union>| {|''a''|}) = {||}"
    by code_simp
  have one: "fcard ({|''a''|} |\<union>| {|''a''|}) = 1"
    by code_simp
  have a: "main (example_args 1) example_diff (example_file 1 []) {|''a''|} (example_file 1 []) {|''a''|}
     = ([SameFiles], Inr (Some 2))"
    using main_argument_errors [where ?tf1.0 = "example_file 1 []" and ?tf2.0 = "example_file 1 []"
        and args = "example_args 1" and diff_prog = example_diff
        and ?keys1.0 = "{|''a''|}" and ?keys2.0 = "{|''a''|}"]
    by simp
  have b: "main ((example_args 1)\<lparr>arg_plot := Some (example_regex ''zzz'')\<rparr>) example_diff
        (example_file 1 []) {|''a''|} (example_file 2 []) {|''a''|}
     = ([TotalKeys 1, NoKeysMatching ''^zzz$''], Inr (Some 2))"
    using main_argument_errors [where ?tf1.0 = "example_file 1 []" and ?tf2.0 = "example_file 2 []"
        and args = "(example_args 1)\<lparr>arg_plot := Some (example_regex ''zzz'')\<rparr>"
        and diff_prog = example_diff and plot = "example_regex ''zzz''"
        and ?keys1.0 = "{|''a''|}" and ?keys2.0 = "{|''a''|}"] f1 one
    by (simp add: example_args_def example_file_def example_regex_def)
  have c: "main ((example_args 1)\<lparr>arg_plot_exclude := Some (example_regex ''a'')\<rparr>) example_diff
        (example_file 1 []) {|''a''|} (example_file 2 []) {|''a''|}
     = ([TotalKeys 1, AllKeysExcluded ''^a$''], Inr (Some 2))"
    using main_argument_errors [where ?tf1.0 = "example_file 1 []" and ?tf2.0 = "example_file 2 []"
        and args = "(example_args 1)\<lparr>arg_plot_exclude := Some (example_regex ''a'')\<rparr>"
        and diff_prog = example_diff and plot_exclude = "example_regex ''a''"
        and ?keys1.0 = "{|''a''|}" and ?keys2.0 = "{|''a''|}"] f2 one
    by (simp add: example_args_def example_file_def example_regex_def keys_matching_plot_def)
  have d: "main ((example_args 1)\<lparr>arg_set := True, arg_plot := Some (example_regex ''zzz'')\<rparr>)
        example_diff (example_file 1 []) {|''a''|} (example_file 2 []) {|''b''|}
     = main ((example_args 1)\<lparr>arg_set := True\<rparr>)
        example_diff (example_file 1 []) {|''a''|} (example_file 2 []) {|''b''|}"
    using main_argument_errors [where ?tf1.0 = "example_file 1 []" and ?tf2.0 = "example_file 2 []"
        and args = "(example_args 1)\<lparr>arg_set := True, arg_plot := Some (example_regex ''zzz'')\<rparr>"
        and diff_prog = example_diff and ?keys1.0 = "{|''a''|}" and ?keys2.0 = "{|''b''|}"]
    by (simp add: example_args_def example_file_def)
  show ?thesis
    using a b c d f1 f2 by blast
qed

text \<open>
  Claim C7. The claim says that a common pair of objects that are not histograms is
  skipped and does not count as different. On two files that both hold the tree
  \<open>t\<close> and nothing else, \<^verbatim>\<open>compare_plot\<close> returns \<open>None\<close>, the loop counts the
  pair in \<^verbatim>\<open>content_status['BAD']\<close>, the report prints one different pair of
  one, and \<^verbatim>\<open>main\<close> returns DIFFERENCE\_COMMON (13).
\<close>

theorem non_histogram_pair_counted_bad:
  "main (example_args 1) example_diff
      (example_file 1 [(''t'', example_tree ''t'')]) {|''t''|}
      (example_file 2 [(''t'', example_tree ''t'')]) {|''t''|}
     = ([TotalKeys 1, Blank, Header ''t'', NotHistograms ''TTree'' ''TTree'',
         CommonIn12 1 1 100, Blank, SameContent 0 1 0, DifferentContent 1 1 100],
        Inr (Some (status_value DIFFERENCE_COMMON)))
   \<and> snd (compare_plot (example_tree ''t'') (example_tree ''t'') 1) = Inr None"
  by code_simp

end
